theory Spec2Isabelle
  imports Complex_Main
begin

section \<open>Tensors\<close>

text \<open>
  Token-id batches are rank-2 tensors \<open>(batch, seq)\<close>, written as a list of rows.
  Token ids are non-negative; \<open>0\<close> is the pad id, \<open>2\<close> the start id and \<open>3\<close> the end id.
  Mask entries are floating-point numbers that only ever take the values \<open>0\<close> and \<open>1\<close>;
  they are written as reals, and \<open>tf.cast\<close> to the float type is the identity.
\<close>

type_synonym ids = "nat list list"
type_synonym mask2 = "real list list"
type_synonym mask4 = "real list list list list"

text \<open>A rank-2 tensor has rows of one common length.\<close>

definition rect :: "nat \<Rightarrow> 'a list list \<Rightarrow> bool" where
  "rect n t = list_all (\<lambda>r. length r = n) t"

text \<open>\<open>tf.shape(t)[1]\<close> of a rank-2 tensor given by its rows.\<close>

definition shape1 :: "'a list list \<Rightarrow> nat" where
  "shape1 t = (case t of [] \<Rightarrow> 0 | r # _ \<Rightarrow> length r)"

section \<open>Mask builder\<close>

text \<open>\<open>tf.ones((r, c))\<close>.\<close>

definition ones :: "nat \<Rightarrow> nat \<Rightarrow> mask2" where
  "ones r c = replicate r (replicate c 1)"

text \<open>
  \<open>tf.linalg.band_part(input, num_lower, num_upper)\<close>: entry \<open>(m, n)\<close> is kept when
  \<open>(num_lower < 0 \<or> m - n \<le> num_lower) \<and> (num_upper < 0 \<or> n - m \<le> num_upper)\<close> and is
  set to zero otherwise.
\<close>

definition in_band :: "int \<Rightarrow> int \<Rightarrow> nat \<Rightarrow> nat \<Rightarrow> bool" where
  "in_band num_lower num_upper m n =
     ((num_lower < 0 \<or> int m - int n \<le> num_lower) \<and>
      (num_upper < 0 \<or> int n - int m \<le> num_upper))"

definition band_part :: "mask2 \<Rightarrow> int \<Rightarrow> int \<Rightarrow> mask2" where
  "band_part input num_lower num_upper =
     map (\<lambda>(m, row). map (\<lambda>(n, x). if in_band num_lower num_upper m n then x else 0)
                          (enumerate 0 row))
         (enumerate 0 input)"

definition create_look_ahead_mask :: "nat \<Rightarrow> mask2" where
  "create_look_ahead_mask n =
     map (map (\<lambda>x. 1 - x)) (band_part (ones n n) (- 1) 0)"

text \<open>
  \<open>create_padding_mask\<close>: \<open>tf.math.equal(seq, 0)\<close> cast to float, then two unit axes
  inserted: the result has shape \<open>(batch, 1, 1, seq)\<close>.
\<close>

definition create_padding_mask :: "ids \<Rightarrow> mask4" where
  "create_padding_mask seq = map (\<lambda>row. [[map (\<lambda>t. if t = 0 then 1 else 0) row]]) seq"

text \<open>
  Broadcasting of one axis, as \<open>tf.maximum\<close> does it: equal lengths are paired, an axis
  of length one is stretched, anything else is an incompatible-shapes error (\<open>None\<close>).
\<close>

definition broadcast :: "('a \<Rightarrow> 'b \<Rightarrow> 'c option) \<Rightarrow> 'a list \<Rightarrow> 'b list \<Rightarrow> 'c list option" where
  "broadcast f xs ys =
     (if length xs = length ys then those (map2 f xs ys)
      else if length xs = 1 then those (map (f (hd xs)) ys)
      else if length ys = 1 then those (map (\<lambda>x. f x (hd ys)) xs)
      else None)"

text \<open>
  \<open>tf.maximum\<close> of a rank-4 and a rank-2 tensor: the rank-2 operand has implicit leading
  axes of length one, which stretch over the two leading axes of the rank-4 operand; the
  two trailing axes broadcast against each other.
\<close>

definition maximum :: "mask4 \<Rightarrow> mask2 \<Rightarrow> mask4 option" where
  "maximum a b =
     those (map (\<lambda>a1. those (map (\<lambda>a2.
        broadcast (broadcast (\<lambda>x y. Some (max x y))) a2 b) a1)) a)"

text \<open>
  \<open>create_masks\<close> returns \<open>(enc_padding_mask, combined_mask, dec_padding_mask)\<close>; \<open>None\<close>
  stands for the incompatible-shapes error of \<open>tf.maximum\<close>.
\<close>

definition create_masks :: "ids \<Rightarrow> ids \<Rightarrow> (mask4 \<times> mask4 \<times> mask4) option" where
  "create_masks inp tar =
     (let enc_padding_mask = create_padding_mask inp;
          dec_padding_mask = create_padding_mask inp;
          look_ahead_mask = create_look_ahead_mask (shape1 tar);
          dec_target_padding_mask = create_padding_mask tar
      in case maximum dec_target_padding_mask look_ahead_mask of
           None \<Rightarrow> None
         | Some combined_mask \<Rightarrow> Some (enc_padding_mask, combined_mask, dec_padding_mask))"

definition count_ones :: "mask2 \<Rightarrow> nat" where
  "count_ones m = length (filter (\<lambda>x. x = 1) (concat m))"

section \<open>Floating-point results\<close>

text \<open>
  Floating-point numbers are idealised: a finite value is a real number (rounding is not
  modelled), and the special values that IEEE division produces are kept, so that \<open>0 / 0\<close>
  is \<open>NaN\<close> and not a number.
\<close>

datatype tfloat = Finite real | PosInf | NegInf | NaN

text \<open>Errors raised by the tensor runtime, by Python indexing and by \<open>range\<close>.\<close>

datatype tf_error = InvalidArgument | IndexError | ValueError

text \<open>The \<open>/\<close> of two finite tensors' scalars.\<close>

definition truediv :: "real \<Rightarrow> real \<Rightarrow> tfloat" where
  "truediv a b =
     (if b \<noteq> 0 then Finite (a / b)
      else if a = 0 then NaN
      else if 0 < a then PosInf else NegInf)"

fun fadd :: "tfloat \<Rightarrow> tfloat \<Rightarrow> tfloat" where
  "fadd (Finite a) (Finite b) = Finite (a + b)"
| "fadd NaN _ = NaN"
| "fadd _ NaN = NaN"
| "fadd PosInf NegInf = NaN"
| "fadd NegInf PosInf = NaN"
| "fadd PosInf _ = PosInf"
| "fadd _ PosInf = PosInf"
| "fadd NegInf _ = NegInf"
| "fadd _ NegInf = NegInf"

text \<open>\<open>tf.math.divide_no_nan\<close> by a finite denominator: zero when the denominator is zero.\<close>

definition div_no_nan :: "tfloat \<Rightarrow> real \<Rightarrow> tfloat" where
  "div_no_nan x y =
     (if y = 0 then Finite 0
      else case x of
             Finite a \<Rightarrow> Finite (a / y)
           | PosInf \<Rightarrow> (if 0 < y then PosInf else NegInf)
           | NegInf \<Rightarrow> (if 0 < y then NegInf else PosInf)
           | NaN \<Rightarrow> NaN)"

section \<open>Masked loss\<close>

type_synonym logits = "real list"
type_synonym predictions = "logits list list"

text \<open>\<open>tf.reduce_sum\<close> of a rank-2 tensor.\<close>

definition reduce_sum :: "real list list \<Rightarrow> real" where
  "reduce_sum t = sum_list (map sum_list t)"

text \<open>
  \<open>loss_function\<close>. The loss object
  \<open>SparseCategoricalCrossentropy(from_logits=True, reduction='none')\<close> belongs to the
  library; it is the parameter \<open>loss_object\<close>, which gives the (finite) loss of one
  position from its label and its logits. Labels and predictions of different shapes are
  an error of the library.
\<close>

definition loss_function ::
  "(nat \<Rightarrow> logits \<Rightarrow> real) \<Rightarrow> ids \<Rightarrow> predictions \<Rightarrow> tf_error + tfloat" where
  "loss_function loss_object tar_real pred =
     (if map length tar_real \<noteq> map length pred then Inl InvalidArgument
      else
        let mask = map (map (\<lambda>t. if \<not> (t = 0) then (1::real) else 0)) tar_real;
            loss0 = map2 (map2 loss_object) tar_real pred;
            loss1 = map2 (map2 (*)) loss0 mask
        in Inr (truediv (reduce_sum loss1) (reduce_sum mask)))"

text \<open>
  The cross-entropy of the softmax of the logits \<open>z\<close> against the label \<open>y\<close>, the
  function the loss object computes for a label within the vocabulary.
\<close>

definition softmax_cross_entropy :: "nat \<Rightarrow> logits \<Rightarrow> real" where
  "softmax_cross_entropy y z = ln (sum_list (map exp z)) - z ! y"

section \<open>Metric trackers\<close>

text \<open>
  A \<open>tf.keras.metrics.Mean\<close> (and a \<open>SparseCategoricalAccuracy\<close>, which is a mean of
  per-position matches) holds two accumulators.
\<close>

record metric =
  total :: tfloat
  count :: real

definition reset_states :: "metric \<Rightarrow> metric" where
  "reset_states m = \<lparr>total = Finite 0, count = 0\<rparr>"

definition result :: "metric \<Rightarrow> tfloat" where
  "result m = div_no_nan (total m) (count m)"

text \<open>\<open>Mean.__call__\<close> on one scalar.\<close>

definition mean_update :: "metric \<Rightarrow> tfloat \<Rightarrow> metric" where
  "mean_update m v = \<lparr>total = fadd (total m) v, count = count m + 1\<rparr>"

text \<open>\<open>tf.argmax\<close> over the last axis: the first index of the greatest entry.\<close>

primrec argmax_from :: "real list \<Rightarrow> nat \<Rightarrow> nat \<Rightarrow> real \<Rightarrow> nat" where
  "argmax_from [] i best v = best"
| "argmax_from (x # xs) i best v =
     (if v < x then argmax_from xs (Suc i) i x else argmax_from xs (Suc i) best v)"

definition argmax :: "real list \<Rightarrow> nat option" where
  "argmax z = (case z of [] \<Rightarrow> None | x # xs \<Rightarrow> Some (argmax_from xs 1 0 x))"

text \<open>
  \<open>sparse_categorical_accuracy\<close>: per position, \<open>1\<close> when the label equals the argmax of
  the logits and \<open>0\<close> otherwise. No mask or sample weight is involved.
\<close>

definition matches :: "ids \<Rightarrow> predictions \<Rightarrow> real list list" where
  "matches y_true y_pred =
     map2 (map2 (\<lambda>t z. if argmax z = Some t then 1 else 0)) y_true y_pred"

definition numel :: "'a list list \<Rightarrow> nat" where
  "numel t = sum_list (map length t)"

text \<open>\<open>SparseCategoricalAccuracy.__call__(y_true, y_pred)\<close>, called without sample weights.\<close>

definition accuracy_update :: "metric \<Rightarrow> ids \<Rightarrow> predictions \<Rightarrow> tf_error + metric" where
  "accuracy_update m y_true y_pred =
     (if map length y_true \<noteq> map length y_pred \<or> (\<exists>r \<in> set y_pred. [] \<in> set r)
      then Inl InvalidArgument
      else Inr \<lparr>total = fadd (total m) (Finite (reduce_sum (matches y_true y_pred))),
               count = count m + real (numel y_true)\<rparr>)"

section \<open>The model and its trackers\<close>

text \<open>
  The forward pass \<open>Transformer.call\<close> of a model with weights \<open>'w\<close>: from the input ids,
  the decoder input ids, the training flag and the three masks to the logits
  \<open>(batch, seq, vocab)\<close>, or an error of the runtime. The network itself is a parameter.
\<close>

type_synonym 'w forward =
  "'w \<Rightarrow> ids \<Rightarrow> ids \<Rightarrow> bool \<Rightarrow> mask4 \<Rightarrow> mask4 \<Rightarrow> mask4 \<Rightarrow> tf_error + predictions"

text \<open>
  The metric objects live in a store, addressed by their position; constructing a metric
  appends a fresh object. The module creates \<open>train_loss\<close> and then \<open>train_accuracy\<close>
  when it is loaded, so they are the first two objects.
\<close>

record 'w world =
  weights :: 'w
  metrics :: "metric list"

definition train_loss :: nat where
  "train_loss = 0"

definition train_accuracy :: nat where
  "train_accuracy = 1"

definition new_metric :: "metric list \<Rightarrow> nat \<times> metric list" where
  "new_metric h = (length h, h @ [\<lparr>total = Finite 0, count = 0\<rparr>])"

definition module_metrics :: "metric list" where
  "module_metrics = snd (new_metric (snd (new_metric [])))"

text \<open>
  \<open>train_step\<close>. \<open>apply_gradients\<close> stands for the gradient computation and the
  optimizer update of the weights.
\<close>

definition train_step ::
  "'w forward \<Rightarrow> ('w \<Rightarrow> ids \<Rightarrow> ids \<Rightarrow> ids \<Rightarrow> 'w) \<Rightarrow> (nat \<Rightarrow> logits \<Rightarrow> real) \<Rightarrow>
   'w world \<Rightarrow> ids \<Rightarrow> ids \<Rightarrow> (tf_error + unit) \<times> 'w world" where
  "train_step call apply_gradients loss_object s inp tar =
     (let tar_inp = map butlast tar;
          tar_real = map tl tar
      in case create_masks inp tar_inp of
           None \<Rightarrow> (Inl InvalidArgument, s)
         | Some (enc_padding_mask, combined_mask, dec_padding_mask) \<Rightarrow>
      (case call (weights s) inp tar_inp True enc_padding_mask combined_mask dec_padding_mask of
           Inl e \<Rightarrow> (Inl e, s)
         | Inr predictions \<Rightarrow>
      (case loss_function loss_object tar_real predictions of
           Inl e \<Rightarrow> (Inl e, s)
         | Inr loss \<Rightarrow>
             let s1 = s\<lparr>weights := apply_gradients (weights s) inp tar_inp tar_real\<rparr>;
                 s2 = s1\<lparr>metrics := (metrics s1)
                        [train_loss := mean_update (metrics s1 ! train_loss) loss]\<rparr>
             in case accuracy_update (metrics s2 ! train_accuracy) tar_real predictions of
                  Inl e \<Rightarrow> (Inl e, s2)
                | Inr m \<Rightarrow> (Inr (), s2\<lparr>metrics := (metrics s2)[train_accuracy := m]\<rparr>))))"

section \<open>Evaluation\<close>

text \<open>
  \<open>split_batch\<close>: one slice \<open>iterable[ndx : min(ndx + n, l)]\<close> for each \<open>ndx\<close> of
  \<open>range(0, l, n)\<close>; a step of zero makes \<open>range\<close> raise.
\<close>

definition split_batch :: "'a list \<Rightarrow> nat \<Rightarrow> tf_error + 'a list list" where
  "split_batch iterable n =
     (let l = length iterable
      in if n = 0 then Inl ValueError
         else Inr (map (\<lambda>k. take (min (k * n + n) l - k * n) (drop (k * n) iterable))
                       [0..<(l + n - 1) div n]))"

text \<open>The body of the loop over the zipped batches, with the two local trackers.\<close>

fun evaluate_loop ::
  "'w forward \<Rightarrow> (nat \<Rightarrow> logits \<Rightarrow> real) \<Rightarrow> 'w \<Rightarrow> nat \<Rightarrow> nat \<Rightarrow> metric list \<Rightarrow>
   (ids \<times> ids) list \<Rightarrow> (tf_error + unit) \<times> metric list" where
  "evaluate_loop call loss_object w test_loss test_accuracy h [] = (Inr (), h)"
| "evaluate_loop call loss_object w test_loss test_accuracy h ((inp, tar) # rest) =
     (let tar_inp = map butlast tar;
          tar_real = map tl tar
      in case create_masks inp tar_inp of
           None \<Rightarrow> (Inl InvalidArgument, h)
         | Some (enc_padding_mask, combined_mask, dec_padding_mask) \<Rightarrow>
      (case call w inp tar_inp False enc_padding_mask combined_mask dec_padding_mask of
           Inl e \<Rightarrow> (Inl e, h)
         | Inr predictions \<Rightarrow>
      (case loss_function loss_object tar_real predictions of
           Inl e \<Rightarrow> (Inl e, h)
         | Inr loss \<Rightarrow>
             let h1 = h[test_loss := mean_update (h ! test_loss) loss]
             in case accuracy_update (h1 ! test_accuracy) tar_real predictions of
                  Inl e \<Rightarrow> (Inl e, h1)
                | Inr m \<Rightarrow>
                    evaluate_loop call loss_object w test_loss test_accuracy
                      (h1[test_accuracy := m]) rest)))"

definition evaluate ::
  "'w forward \<Rightarrow> (nat \<Rightarrow> logits \<Rightarrow> real) \<Rightarrow> nat \<Rightarrow> 'w world \<Rightarrow> ids \<Rightarrow> ids \<Rightarrow>
   (tf_error + tfloat \<times> tfloat) \<times> 'w world" where
  "evaluate call loss_object BATCH_SIZE s inp tar =
     (let batch_size = BATCH_SIZE;
          inp_batch = split_batch inp batch_size;
          tar_batch = split_batch tar batch_size;
          (test_loss, h1) = new_metric (metrics s);
          (test_accuracy, h2) = new_metric h1;
          h3 = h2[test_loss := reset_states (h2 ! test_loss)];
          h4 = h3[test_accuracy := reset_states (h3 ! test_accuracy)]
      in case inp_batch of
           Inl e \<Rightarrow> (Inl e, s\<lparr>metrics := h4\<rparr>)
         | Inr ib \<Rightarrow>
      (case tar_batch of
           Inl e \<Rightarrow> (Inl e, s\<lparr>metrics := h4\<rparr>)
         | Inr tb \<Rightarrow>
      (case evaluate_loop call loss_object (weights s) test_loss test_accuracy h4 (zip ib tb) of
           (Inl e, h5) \<Rightarrow> (Inl e, s\<lparr>metrics := h5\<rparr>)
         | (Inr u, h5) \<Rightarrow>
             (Inr (result (h5 ! test_loss), result (h5 ! test_accuracy)),
              s\<lparr>metrics := h5\<rparr>))))"

section \<open>Greedy decoding\<close>

text \<open>\<open>tf.argmax(predictions, axis=-1)\<close> of a rank-3 tensor; an empty last axis is an error.\<close>

definition argmax_last :: "predictions \<Rightarrow> ids option" where
  "argmax_last p = those (map (\<lambda>row. those (map argmax row)) p)"

text \<open>
  The loop of \<open>predict\<close>, with the number of iterations left. It returns the number of
  forward passes it has started and either the error that ended it or the list \<open>result\<close>
  that is handed to the tokenizer's \<open>decode\<close>.
\<close>

fun predict_loop ::
  "(ids \<Rightarrow> ids \<Rightarrow> bool \<Rightarrow> mask4 \<Rightarrow> mask4 \<Rightarrow> mask4 \<Rightarrow> tf_error + predictions) \<Rightarrow>
   ids \<Rightarrow> nat \<Rightarrow> ids \<Rightarrow> nat list \<Rightarrow> nat \<times> (tf_error + nat list)" where
  "predict_loop self encoder_input 0 output res = (0, Inr res)"
| "predict_loop self encoder_input (Suc k) output res =
     (case create_masks encoder_input output of
        None \<Rightarrow> (0, Inl InvalidArgument)
      | Some (enc_padding_mask, combined_mask, dec_padding_mask) \<Rightarrow>
     (case self encoder_input output False enc_padding_mask combined_mask dec_padding_mask of
        Inl e \<Rightarrow> (1, Inl e)
      | Inr predictions \<Rightarrow>
     (case argmax_last (map (\<lambda>row. drop (length row - 1) row) predictions) of
        None \<Rightarrow> (1, Inl InvalidArgument)
      | Some predicted_id \<Rightarrow>
          if length output \<noteq> length predicted_id then (1, Inl InvalidArgument)
          else
            let output' = map2 (@) output predicted_id
            in (case predicted_id of
                  [] \<Rightarrow> (1, Inl IndexError)
                | [] # _ \<Rightarrow> (1, Inl IndexError)
                | (pid # _) # _ \<Rightarrow>
                    if pid = 3 then (1, Inr res)
                    else
                      let (n, r) = predict_loop self encoder_input k output' (res @ [pid])
                      in (Suc n, r)))))"

text \<open>
  \<open>predict\<close>: the tokenizer is a collaborator, given by \<open>tokenize_batch\<close> (the sentence to
  its one-row batch of ids) and \<open>decode\<close>.
\<close>

definition predict_ids ::
  "(ids \<Rightarrow> ids \<Rightarrow> bool \<Rightarrow> mask4 \<Rightarrow> mask4 \<Rightarrow> mask4 \<Rightarrow> tf_error + predictions) \<Rightarrow>
   (string \<Rightarrow> ids) \<Rightarrow> nat \<Rightarrow> string \<Rightarrow> nat \<times> (tf_error + nat list)" where
  "predict_ids self tokenize_batch MAX_LENGTH inp_sentence =
     (let encoder_input = tokenize_batch inp_sentence;
          decoder_input = [2]
      in predict_loop self encoder_input MAX_LENGTH [decoder_input] decoder_input)"

definition predict ::
  "(ids \<Rightarrow> ids \<Rightarrow> bool \<Rightarrow> mask4 \<Rightarrow> mask4 \<Rightarrow> mask4 \<Rightarrow> tf_error + predictions) \<Rightarrow>
   (string \<Rightarrow> ids) \<Rightarrow> (nat list \<Rightarrow> string) \<Rightarrow> nat \<Rightarrow> string \<Rightarrow> tf_error + string" where
  "predict self tokenize_batch decode MAX_LENGTH inp_sentence =
     (case snd (predict_ids self tokenize_batch MAX_LENGTH inp_sentence) of
        Inl e \<Rightarrow> Inl e
      | Inr res \<Rightarrow> Inr (decode res))"

section \<open>Demo mode\<close>

text \<open>\<open>d.split('\n')\<close>: the pieces between line feeds, empty pieces included.\<close>

fun split_nl :: "string \<Rightarrow> string list" where
  "split_nl [] = [[]]"
| "split_nl (c # cs) =
     (if c = CHR 0x0A then [] # split_nl cs
      else case split_nl cs of
             [] \<Rightarrow> [[c]]
           | l # ls \<Rightarrow> (c # l) # ls)"

text \<open>
  The \<open>for\<close> loop of \<open>demo\<close>: the lines printed so far, and the exception that left the
  loop, if any. It is not guarded line by line.
\<close>

fun demo_loop :: "(string \<Rightarrow> 'e + string) \<Rightarrow> string list \<Rightarrow> string list \<times> 'e option" where
  "demo_loop predict_fn [] = ([], None)"
| "demo_loop predict_fn (i # rest) =
     (if \<not> (length i = 0) then
        (case predict_fn i of
           Inl e \<Rightarrow> ([i], Some e)
         | Inr t \<Rightarrow> (let (out, r) = demo_loop predict_fn rest in (i # t # out, r)))
      else demo_loop predict_fn rest)"

text \<open>
  \<open>demo\<close>: the lines written to standard output. \<open>file\<close> is the outcome of opening and
  reading \<open>demo.txt\<close>, \<open>str\<close> renders an exception as \<open>print\<close> does. The single
  \<open>try\<close> encloses the reading and the whole loop.
\<close>

definition demo :: "('e \<Rightarrow> string) \<Rightarrow> 'e + string \<Rightarrow> (string \<Rightarrow> 'e + string) \<Rightarrow> string list" where
  "demo str file predict_fn =
     (case file of
        Inl e \<Rightarrow> [''demo error'', str e]
      | Inr d \<Rightarrow>
          (case demo_loop predict_fn (split_nl d) of
             (out, None) \<Rightarrow> out
           | (out, Some e) \<Rightarrow> out @ [''demo error'', str e]))"

section \<open>Attention layers\<close>

text \<open>
  The layers compute on tensors of the runtime, an abstract type \<open>'t\<close>; the operations of
  the runtime that the layers use are the fields of \<open>runtime\<close>. A mask argument may be
  \<open>None\<close>.
\<close>

record ('t, 'm) runtime =
  matmul :: "'t \<Rightarrow> 't \<Rightarrow> bool \<Rightarrow> 't"
  div_sqrt_dk :: "'t \<Rightarrow> 't \<Rightarrow> 't"
  add_mask :: "'t \<Rightarrow> 'm \<Rightarrow> 't"
  softmax :: "'t \<Rightarrow> 't"
  batch_of :: "'t \<Rightarrow> nat"
  reshape_heads :: "'t \<Rightarrow> nat \<Rightarrow> nat \<Rightarrow> nat \<Rightarrow> 't"
  transpose_0213 :: "'t \<Rightarrow> 't"
  reshape_concat :: "'t \<Rightarrow> nat \<Rightarrow> nat \<Rightarrow> 't"
  tensor_add :: "'t \<Rightarrow> 't \<Rightarrow> 't"

text \<open>
  \<open>scaled_dot_product_attention(q, k, v, mask)\<close>; \<open>div_sqrt_dk qk k\<close> is \<open>qk\<close> divided
  by the square root of the last dimension of \<open>k\<close>, \<open>add_mask x mask\<close> is
  \<open>x + mask * -1e9\<close>.
\<close>

definition scaled_dot_product_attention ::
  "('t, 'm) runtime \<Rightarrow> 't \<Rightarrow> 't \<Rightarrow> 't \<Rightarrow> 'm option \<Rightarrow> 't \<times> 't" where
  "scaled_dot_product_attention tf q k v msk =
     (let qk = matmul tf q k True;
          scaled_attention_logits = div_sqrt_dk tf qk k;
          scaled_attention_logits =
            (case msk of None \<Rightarrow> scaled_attention_logits
                        | Some m \<Rightarrow> add_mask tf scaled_attention_logits m);
          attention_weights = softmax tf scaled_attention_logits;
          output = matmul tf attention_weights v False
      in (output, attention_weights))"

record 't multi_head_attention =
  num_heads :: nat
  d_model :: nat
  depth :: nat
  wq :: "'t \<Rightarrow> 't"
  wk :: "'t \<Rightarrow> 't"
  wv :: "'t \<Rightarrow> 't"
  dense :: "'t \<Rightarrow> 't"

definition split_heads ::
  "('t, 'm) runtime \<Rightarrow> 't multi_head_attention \<Rightarrow> 't \<Rightarrow> nat \<Rightarrow> 't" where
  "split_heads tf self x batch_size =
     transpose_0213 tf (reshape_heads tf x batch_size (num_heads self) (depth self))"

text \<open>\<open>MultiHeadAttention.call(v, k, q, mask)\<close>, with the arguments in the order of the source.\<close>

definition mha_call ::
  "('t, 'm) runtime \<Rightarrow> 't multi_head_attention \<Rightarrow> 't \<Rightarrow> 't \<Rightarrow> 't \<Rightarrow> 'm option \<Rightarrow> 't \<times> 't" where
  "mha_call tf self v k q msk =
     (let batch_size = batch_of tf q;
          q1 = wq self q;
          k1 = wk self k;
          v1 = wv self v;
          q2 = split_heads tf self q1 batch_size;
          k2 = split_heads tf self k1 batch_size;
          v2 = split_heads tf self v1 batch_size;
          (scaled_attention, attention_weights) = scaled_dot_product_attention tf q2 k2 v2 msk;
          scaled_attention = transpose_0213 tf scaled_attention;
          concat_attention = reshape_concat tf scaled_attention batch_size (d_model self);
          output = dense self concat_attention
      in (output, attention_weights))"

record 't decoder_layer =
  mha1 :: "'t multi_head_attention"
  mha2 :: "'t multi_head_attention"
  ffn :: "'t \<Rightarrow> 't"
  layernorm1 :: "'t \<Rightarrow> 't"
  layernorm2 :: "'t \<Rightarrow> 't"
  layernorm3 :: "'t \<Rightarrow> 't"
  dropout1 :: "'t \<Rightarrow> bool \<Rightarrow> 't"
  dropout2 :: "'t \<Rightarrow> bool \<Rightarrow> 't"
  dropout3 :: "'t \<Rightarrow> bool \<Rightarrow> 't"

text \<open>The output of the first block of \<open>DecoderLayer.call\<close>, with its attention weights.\<close>

definition decoder_block1 ::
  "('t, 'm) runtime \<Rightarrow> 't decoder_layer \<Rightarrow> 't \<Rightarrow> bool \<Rightarrow> 'm option \<Rightarrow> 't \<times> 't" where
  "decoder_block1 tf self x training look_ahead_mask =
     (let (attn1, attn_weights_block1) = mha_call tf (mha1 self) x x x look_ahead_mask;
          attn1 = dropout1 self attn1 training;
          out1 = layernorm1 self (tensor_add tf attn1 x)
      in (out1, attn_weights_block1))"

text \<open>\<open>DecoderLayer.call(x, enc_output, training, look_ahead_mask, padding_mask)\<close>.\<close>

definition decoder_layer_call ::
  "('t, 'm) runtime \<Rightarrow> 't decoder_layer \<Rightarrow> 't \<Rightarrow> 't \<Rightarrow> bool \<Rightarrow> 'm option \<Rightarrow> 'm option \<Rightarrow>
   't \<times> 't \<times> 't" where
  "decoder_layer_call tf self x enc_output training look_ahead_mask padding_mask =
     (let (out1, attn_weights_block1) = decoder_block1 tf self x training look_ahead_mask;
          (attn2, attn_weights_block2) =
             mha_call tf (mha2 self) enc_output enc_output out1 padding_mask;
          attn2 = dropout2 self attn2 training;
          out2 = layernorm2 self (tensor_add tf attn2 out1);
          ffn_output = ffn self out2;
          ffn_output = dropout3 self ffn_output training;
          out3 = layernorm3 self (tensor_add tf ffn_output out2)
      in (out3, attn_weights_block1, attn_weights_block2))"

section \<open>Reference quantities\<close>

text \<open>
  The quantities the specification speaks of, written down from its words, to compare the
  code with: the number of non-pad target positions, the sum of the per-token loss over
  the non-pad positions, and the fraction of non-pad positions predicted correctly.
\<close>

definition nonpad_count :: "ids \<Rightarrow> nat" where
  "nonpad_count tar_real = length (filter (\<lambda>t. t \<noteq> 0) (concat tar_real))"



definition nonpad_correct :: "ids \<Rightarrow> predictions \<Rightarrow> nat" where
  "nonpad_correct tar_real pred =
     length (filter (\<lambda>(t, z). t \<noteq> 0 \<and> argmax z = Some t) (zip (concat tar_real) (concat pred)))"

definition nonpad_accuracy :: "ids \<Rightarrow> predictions \<Rightarrow> real" where
  "nonpad_accuracy tar_real pred =
     real (nonpad_correct tar_real pred) / real (nonpad_count tar_real)"

section \<open>Properties of the mask builder\<close>

lemma band_part_ones:
  "band_part (ones r c) lo hi =
     map (\<lambda>m. map (\<lambda>k. if in_band lo hi m k then 1 else 0) [0..<c]) [0..<r]"
  by (auto simp: band_part_def ones_def list_eq_iff_nth_eq nth_enumerate_eq)

lemma in_band_lower: "in_band (- 1) 0 m k \<longleftrightarrow> k \<le> m"
  by (auto simp: in_band_def)

lemma look_ahead_rows:
  "create_look_ahead_mask n = map (\<lambda>i. map (\<lambda>j. if i < j then 1 else 0) [0..<n]) [0..<n]"
  by (auto simp: create_look_ahead_mask_def band_part_ones in_band_lower)

lemma ones_in_row: "length (filter ((<) i) [0..<n]) = n - Suc i"
  by (induction n) (auto simp: Suc_diff_le)

lemma sum_list_row_counts: "2 * sum_list (map (\<lambda>i. n - Suc i) [0..<n]) = n * (n - 1)"
proof -
  have "2 * sum_list (map (\<lambda>i. n - Suc i) [0..<m]) + m * (m + 1) = 2 * m * n" if "m \<le> n" for m
    using that
  proof (induction m)
    case 0 then show ?case by simp
  next
    case (Suc m)
    then obtain k where n: "n = Suc m + k" by (metis le_iff_add)
    from Suc have "2 * sum_list (map (\<lambda>i. n - Suc i) [0..<m]) + m * (m + 1) = 2 * m * n" by simp
    then show ?case by (simp add: n algebra_simps)
  qed
  from this[of n] have "2 * sum_list (map (\<lambda>i. n - Suc i) [0..<n]) + n * (n + 1) = 2 * n * n" by simp
  then show ?thesis by (cases n) (simp_all add: algebra_simps)
qed

lemma count_ones_look_ahead: "count_ones (create_look_ahead_mask n) = n * (n - 1) div 2"
proof -
  have "count_ones (create_look_ahead_mask n) = sum_list (map (\<lambda>i. n - Suc i) [0..<n])"
    by (simp add: count_ones_def look_ahead_rows length_concat filter_concat comp_def ones_in_row)
  then show ?thesis using sum_list_row_counts[of n] by simp
qed

text \<open>
  C7. The look-ahead mask of size \<open>n\<close> is an \<open>n\<close> by \<open>n\<close> matrix whose entry \<open>(i, j)\<close> is
  \<open>1\<close> exactly when \<open>j > i\<close> and \<open>0\<close> otherwise; it holds exactly \<open>n * (n - 1) / 2\<close> ones.
\<close>

theorem look_ahead_strict_upper:
  "length (create_look_ahead_mask n) = n \<and>
   (\<forall>i<n. length (create_look_ahead_mask n ! i) = n \<and>
      (\<forall>j<n. create_look_ahead_mask n ! i ! j = (if j > i then 1 else 0))) \<and>
   count_ones (create_look_ahead_mask n) = n * (n - 1) div 2"
  by (simp add: count_ones_look_ahead) (simp add: look_ahead_rows)

theorem look_ahead_strict_upper_witness:
  "(1::nat) < 4 \<and> (2::nat) < 4 \<and>
   length (create_look_ahead_mask 4) = 4 \<and>
   length (create_look_ahead_mask 4 ! 1) = 4 \<and>
   create_look_ahead_mask 4 ! 1 ! 2 = 1 \<and>
   create_look_ahead_mask 4 ! 2 ! 1 = 0 \<and>
   count_ones (create_look_ahead_mask 4) = 6"
  using look_ahead_strict_upper [of 4] by simp

section \<open>Properties of \<open>create_masks\<close>\<close>

lemma those_map_Some: "(\<And>x. x \<in> set xs \<Longrightarrow> f x = Some (g x)) \<Longrightarrow> those (map f xs) = Some (map g xs)"
  by (induction xs) auto

lemma broadcast_same_length:
  "length xs = length ys \<Longrightarrow> broadcast (\<lambda>x y. Some (f x y)) xs ys = Some (map2 f xs ys)"
proof -
  assume len: "length xs = length ys"
  then have "those (map2 (\<lambda>x y. Some (f x y)) xs ys) = Some (map2 f xs ys)"
    by (induction xs ys rule: list_induct2) auto
  with len show ?thesis by (simp add: broadcast_def)
qed

lemma broadcast_row_over_matrix:
  assumes "\<And>r. r \<in> set b \<Longrightarrow> length r = length prow"
  shows "broadcast (broadcast (\<lambda>x y. Some (max x y))) [prow] b = Some (map (\<lambda>r. map2 max prow r) b)"
proof (cases "length b = 1")
  case True
  then obtain r where b: "b = [r]" by (cases b) auto
  with assms have "length r = length prow" by simp
  then show ?thesis by (simp add: b broadcast_def[of _ "[prow]"] broadcast_same_length)
next
  case False
  have "those (map (broadcast (\<lambda>x y. Some (max x y)) prow) b) = Some (map (\<lambda>r. map2 max prow r) b)"
    by (rule those_map_Some) (simp add: assms broadcast_same_length)
  with False show ?thesis by (simp add: broadcast_def[of _ "[prow]"])
qed

lemma maximum_padding_look_ahead:
  assumes "rect n tar"
  shows "maximum (create_padding_mask tar) (create_look_ahead_mask n) =
           Some (map (\<lambda>row. [map (\<lambda>r. map2 max (map (\<lambda>t. if t = 0 then 1 else 0) row) r)
                                  (create_look_ahead_mask n)]) tar)"
proof -
  have rows: "\<And>r. r \<in> set (create_look_ahead_mask n) \<Longrightarrow> length r = n"
    by (auto simp: look_ahead_rows)
  have "those (map (\<lambda>a1. those (map (\<lambda>a2.
        broadcast (broadcast (\<lambda>x y. Some (max x y))) a2 (create_look_ahead_mask n)) a1)) (create_padding_mask tar))
     = Some (map (\<lambda>a1. [map (\<lambda>r. map2 max (hd (hd a1)) r) (create_look_ahead_mask n)]) (create_padding_mask tar))"
  proof (rule those_map_Some)
    fix a1 assume "a1 \<in> set (create_padding_mask tar)"
    then obtain row where row: "row \<in> set tar" and a1: "a1 = [[map (\<lambda>t. if t = 0 then 1 else 0) row]]"
      by (auto simp: create_padding_mask_def)
    from row assms have "length row = n" by (simp add: rect_def list_all_iff)
    then show "those (map (\<lambda>a2. broadcast (broadcast (\<lambda>x y. Some (max x y))) a2 (create_look_ahead_mask n)) a1)
        = Some [map (\<lambda>r. map2 max (hd (hd a1)) r) (create_look_ahead_mask n)]"
      by (simp add: a1 broadcast_row_over_matrix rows)
  qed
  then show ?thesis by (simp add: maximum_def create_padding_mask_def comp_def)
qed

lemma shape1_rect: "rect n tar \<Longrightarrow> tar \<noteq> [] \<Longrightarrow> shape1 tar = n"
  by (cases tar) (auto simp: rect_def shape1_def)

lemma create_masks_rect:
  assumes "rect n tar"
  shows "create_masks inp tar =
           Some (create_padding_mask inp,
                 map (\<lambda>row. [map (\<lambda>r. map2 max (map (\<lambda>t. if t = 0 then 1 else 0) row) r)
                                  (create_look_ahead_mask n)]) tar,
                 create_padding_mask inp)"
proof (cases "tar = []")
  case True
  then show ?thesis by (simp add: create_masks_def maximum_def create_padding_mask_def)
next
  case False
  with assms have "shape1 tar = n" by (rule shape1_rect)
  then show ?thesis by (simp add: create_masks_def maximum_padding_look_ahead[OF assms])
qed

text \<open>
  C6. For a target batch with rows of one length \<open>n\<close>, \<open>create_masks\<close> returns three
  masks. The encoder padding mask and the decoder cross-attention padding mask are the same
  mask over the input ids: one \<open>1 \<times> 1 \<times> seq\<close> block per batch row, holding \<open>1\<close> exactly
  where the token id is \<open>0\<close> and \<open>0\<close> elsewhere. The combined mask has shape
  \<open>(batch, 1, n, n)\<close> and is the elementwise maximum of the padding mask of the decoder
  input and the look-ahead mask. The input batch \<open>[[4,5,6,0,0]]\<close> gives the encoder
  padding mask \<open>[[[[0,0,0,1,1]]]]\<close>.
\<close>

theorem create_masks_spec:
  assumes "rect n tar"
  shows "\<exists>enc combined dec.
     create_masks inp tar = Some (enc, combined, dec) \<and> enc = dec \<and>
     length enc = length inp \<and>
     (\<forall>b<length inp. enc ! b = [[map (\<lambda>t. if t = 0 then 1 else 0) (inp ! b)]]) \<and>
     length combined = length tar \<and>
     (\<forall>b<length tar. length (combined ! b) = 1 \<and> length (combined ! b ! 0) = n \<and>
        (\<forall>i<n. length (combined ! b ! 0 ! i) = n \<and>
           (\<forall>j<n. combined ! b ! 0 ! i ! j =
                    max (create_padding_mask tar ! b ! 0 ! 0 ! j)
                        (create_look_ahead_mask n ! i ! j)))) \<and>
     (inp = [[4, 5, 6, 0, 0]] \<longrightarrow> enc = [[[[0, 0, 0, 1, 1]]]])"
proof -
  have len: "\<And>b. b < length tar \<Longrightarrow> length (tar ! b) = n"
    using assms by (simp add: rect_def list_all_length)
  show ?thesis
    apply (simp add: create_masks_rect[OF assms])
    apply (intro conjI allI impI)
        apply (simp_all add: create_padding_mask_def len look_ahead_rows)
    done
qed

theorem create_masks_spec_witness:
  "rect 3 [[2, 7, 0::nat]] \<and>
   (\<exists>enc combined dec.
      create_masks [[4, 5, 6, 0, 0]] [[2, 7, 0]] = Some (enc, combined, dec) \<and>
      enc = [[[[0, 0, 0, 1, 1]]]] \<and> dec = [[[[0, 0, 0, 1, 1]]]] \<and>
      combined ! 0 ! 0 ! 0 ! 1 = 1 \<and> combined ! 0 ! 0 ! 1 ! 1 = 0 \<and>
      combined ! 0 ! 0 ! 1 ! 2 = 1 \<and> combined ! 0 ! 0 ! 2 ! 2 = 1)"
proof -
  have r: "rect 3 [[2, 7, 0::nat]]" by (simp add: rect_def)
  from create_masks_spec [OF r, of "[[4, 5, 6, 0, 0]]"]
  obtain enc combined dec where
    m: "create_masks [[4, 5, 6, 0, 0]] [[2, 7, 0]] = Some (enc, combined, dec)" and
    e: "enc = dec" "enc = [[[[0, 0, 0, 1, 1]]]]" and
    c: "\<forall>b<length [[2, 7, 0::nat]]. length (combined ! b) = 1 \<and> length (combined ! b ! 0) = 3 \<and>
        (\<forall>i<3. length (combined ! b ! 0 ! i) = 3 \<and>
           (\<forall>j<3. combined ! b ! 0 ! i ! j =
                    max (create_padding_mask [[2, 7, 0]] ! b ! 0 ! 0 ! j)
                        (create_look_ahead_mask 3 ! i ! j)))"
    by auto
  from c have c0: "\<forall>i<3. \<forall>j<3. combined ! 0 ! 0 ! i ! j =
                    max (create_padding_mask [[2, 7, 0]] ! 0 ! 0 ! 0 ! j)
                        (create_look_ahead_mask 3 ! i ! j)"
    by simp
  have "combined ! 0 ! 0 ! 0 ! 1 = 1" "combined ! 0 ! 0 ! 1 ! 1 = 0"
       "combined ! 0 ! 0 ! 1 ! 2 = 1" "combined ! 0 ! 0 ! 2 ! 2 = 1"
    using c0 by (simp_all add: create_padding_mask_def look_ahead_rows)
  with r m e show ?thesis by simp
qed

section \<open>Properties of the masked loss\<close>

lemma reduce_sum_Nil: "reduce_sum [] = 0"
  by (simp add: reduce_sum_def)

lemma reduce_sum_Cons: "reduce_sum (r # t) = sum_list r + reduce_sum t"
  by (simp add: reduce_sum_def)














section \<open>Pad positions and the masked loss\<close>










section \<open>The accuracy tracker and pad positions\<close>

text \<open>
  What the tracker accumulates: the number of positions, pad or not, whose label equals the
  argmax of the logits, over the number of all positions.
\<close>

lemma matches_row_sum:
  "length row = length prow \<Longrightarrow>
   sum_list (map2 (\<lambda>t z. if argmax z = Some t then (1::real) else 0) row prow) =
   real (length (filter (\<lambda>(t, z). argmax z = Some t) (zip row prow)))"
  by (induction row prow rule: list_induct2) auto

lemma matches_sum:
  "map length y_true = map length y_pred \<Longrightarrow>
   reduce_sum (matches y_true y_pred) =
   real (length (filter (\<lambda>(t, z). argmax z = Some t) (zip (concat y_true) (concat y_pred))))"
proof (induction y_true arbitrary: y_pred)
  case Nil
  then show ?case by (simp add: matches_def reduce_sum_Nil)
next
  case (Cons row y_true)
  then obtain prow pred' where p: "y_pred = prow # pred'" by (cases y_pred) auto
  with Cons.prems have l: "length row = length prow" "map length y_true = map length pred'" by auto
  from Cons.IH [OF l(2)] l(1) show ?case
    by (simp add: p matches_def reduce_sum_Cons matches_row_sum)
qed

lemma accuracy_update_counts_every_position:
  assumes "map length y_true = map length y_pred" "\<forall>r\<in>set y_pred. [] \<notin> set r"
  shows "accuracy_update m y_true y_pred =
           Inr \<lparr>total = fadd (total m)
                    (Finite (real (length (filter (\<lambda>(t, z). argmax z = Some t)
                                                  (zip (concat y_true) (concat y_pred)))))),
                count = count m + real (length (concat y_true))\<rparr>"
  using assms by (simp add: accuracy_update_def matches_sum numel_def length_concat)

lemma argmax_examples:
  "argmax [0, 0, 0, 0, 1] = Some 4" "argmax [0, 0, 0, 1, 0] = Some 3" "argmax [0, 1, 0, 0, 0] = Some 1"
  by (simp_all add: argmax_def eval_nat_numeral)

lemma accuracy_update_at_pad:
  "accuracy_update m [[4, 3, 0]] [[[0, 0, 0, 0, 1], [0, 0, 0, 1, 0], [0, 1, 0, 0, 0]]] =
     Inr \<lparr>total = fadd (total m) (Finite 2), count = count m + 3\<rparr>"
  by (simp add: accuracy_update_def matches_def argmax_examples reduce_sum_def numel_def)

lemma loss_at_pad:
  "\<exists>l. loss_function softmax_cross_entropy [[4, 3, 0]]
         [[[0, 0, 0, 0, 1], [0, 0, 0, 1, 0], [0, 1, 0, 0, 0]]] = Inr l"
  by (simp add: loss_function_def Let_def)

lemma masks_at_pad: "\<exists>e c d. create_masks [[4, 5]] [[2, 4, 3]] = Some (e, c, d)"
  using create_masks_rect [of 3 "[[2, 4, 3]]" "[[4, 5]]"] by (simp add: rect_def)

lemma nonpad_accuracy_at_pad:
  "nonpad_accuracy [[4, 3, 0]] [[[0, 0, 0, 0, 1], [0, 0, 0, 1, 0], [0, 1, 0, 0, 0]]] = 1"
  by (simp add: nonpad_accuracy_def nonpad_correct_def nonpad_count_def argmax_examples)

lemma split_batch_one: "split_batch [x] 64 = Inr [[x]]"
  by (simp add: split_batch_def)

text \<open>
  C1. The accuracy trackers are fed every target position, pad positions included. For the
  input batch \<open>[[4,5]]\<close> and the target batch \<open>[[2,4,3,0]]\<close> the labels are \<open>[[4,3,0]]\<close>;
  with logits whose argmax is \<open>4\<close>, \<open>3\<close> and \<open>1\<close>, both non-pad positions are predicted
  correctly, so the fraction over non-pad positions is \<open>1\<close>, but the accuracy of
  \<open>train_step\<close> and of \<open>evaluate\<close> is \<open>2/3\<close>.
\<close>

theorem accuracy_counts_pad_positions:
  "result (metrics (snd (train_step
             (\<lambda>w inp tar_inp training e c d.
                 Inr [[[0, 0, 0, 0, 1], [0, 0, 0, 1, 0], [0, 1, 0, 0, 0]]])
             (\<lambda>w inp tar_inp tar_real. w) softmax_cross_entropy
             \<lparr>weights = (), metrics = module_metrics\<rparr>
             [[4, 5]] [[2, 4, 3, 0]])) ! train_accuracy) = Finite (2 / 3) \<and>
   map_sum id snd (fst (evaluate
             (\<lambda>w inp tar_inp training e c d.
                 Inr [[[0, 0, 0, 0, 1], [0, 0, 0, 1, 0], [0, 1, 0, 0, 0]]])
             softmax_cross_entropy 64
             \<lparr>weights = (), metrics = module_metrics\<rparr>
             [[4, 5]] [[2, 4, 3, 0]])) = Inr (Finite (2 / 3)) \<and>
   nonpad_accuracy [[4, 3, 0]] [[[0, 0, 0, 0, 1], [0, 0, 0, 1, 0], [0, 1, 0, 0, 0]]] = 1"
proof -
  obtain e c d where m: "create_masks [[4, 5]] [[2, 4, 3]] = Some (e, c, d)"
    using masks_at_pad by blast
  obtain l where l: "loss_function softmax_cross_entropy [[4, 3, 0]]
                       [[[0, 0, 0, 0, 1], [0, 0, 0, 1, 0], [0, 1, 0, 0, 0]]] = Inr l"
    using loss_at_pad by blast
  have t: "result (metrics (snd (train_step
             (\<lambda>w inp tar_inp training e c d.
                 Inr [[[0, 0, 0, 0, 1], [0, 0, 0, 1, 0], [0, 1, 0, 0, 0]]])
             (\<lambda>w inp tar_inp tar_real. w) softmax_cross_entropy
             \<lparr>weights = (), metrics = module_metrics\<rparr>
             [[4, 5]] [[2, 4, 3, 0]])) ! train_accuracy) = Finite (2 / 3)"
    using m l
    by (simp add: train_step_def Let_def accuracy_update_at_pad module_metrics_def new_metric_def
                  train_loss_def train_accuracy_def result_def div_no_nan_def)
  have ev: "map_sum id snd (fst (evaluate
             (\<lambda>w inp tar_inp training e c d.
                 Inr [[[0, 0, 0, 0, 1], [0, 0, 0, 1, 0], [0, 1, 0, 0, 0]]])
             softmax_cross_entropy 64
             \<lparr>weights = (), metrics = module_metrics\<rparr>
             [[4, 5]] [[2, 4, 3, 0]])) = Inr (Finite (2 / 3))"
    using m l
    by (simp add: evaluate_def Let_def split_batch_one accuracy_update_at_pad module_metrics_def
                  new_metric_def reset_states_def result_def div_no_nan_def)
  from t ev nonpad_accuracy_at_pad show ?thesis by blast
qed

section \<open>Greedy decoding\<close>

lemma predict_loop_passes: "fst (predict_loop self enc k out res) \<le> k"
proof (induction k arbitrary: out res)
  case 0
  then show ?case by simp
next
  case (Suc k)
  show ?case
    using Suc.IH
    by (auto split: option.splits sum.splits list.splits prod.splits simp: Let_def)
       (metis fst_conv)
qed

lemma predict_loop_no_end:
  "3 \<notin> set res \<Longrightarrow> predict_loop self enc k out res = (n, Inr r) \<Longrightarrow> 3 \<notin> set r"
proof (induction k arbitrary: out res n)
  case 0
  then show ?case by simp
next
  case (Suc k)
  from Suc.prems show ?case
    by (auto split: option.splits sum.splits list.splits prod.splits if_splits simp: Let_def
             dest: Suc.IH [rotated])
qed

lemma argmax_last_row:
  assumes "row \<noteq> []" "[] \<notin> set row"
  shows "\<exists>pid. argmax_last (map (\<lambda>row. drop (length row - 1) row) [row]) = Some [[pid]]"
proof -
  from assms(1) have d: "drop (length row - 1) row = [last row]"
    by (metis append_butlast_last_id append_eq_conv_conj length_butlast)
  from assms have "last row \<noteq> []" by (metis last_in_set)
  then obtain x xs where "last row = x # xs" by (cases "last row") auto
  then show ?thesis using d by (simp add: argmax_last_def argmax_def)
qed

text \<open>
  With a forward pass that returns, for a decoder input of one non-empty row, the logits of
  one row of the same length with a non-empty vocabulary axis, the loop ends without error.
\<close>

lemma predict_loop_returns:
  assumes ws: "\<And>orow e c d. orow \<noteq> [] \<Longrightarrow>
                 \<exists>row. self enc [orow] False e c d = Inr [row] \<and> length row = length orow \<and>
                       [] \<notin> set row"
  shows "orow \<noteq> [] \<Longrightarrow> \<exists>n r. predict_loop self enc k [orow] res = (n, Inr r)"
proof (induction k arbitrary: orow res)
  case 0
  then show ?case by simp
next
  case (Suc k)
  have "rect (length orow) [orow]" by (simp add: rect_def)
  from create_masks_rect [OF this, of enc]
  obtain e c d where m: "create_masks enc [orow] = Some (e, c, d)" by blast
  from ws [OF Suc.prems, of e c d] obtain row where
    p: "self enc [orow] False e c d = Inr [row]" and row: "length row = length orow" "[] \<notin> set row"
    by blast
  from row(1) Suc.prems have "row \<noteq> []" by auto
  from argmax_last_row [OF this row(2)] obtain pid where
    a: "argmax_last (map (\<lambda>row. drop (length row - 1) row) [row]) = Some [[pid]]" by blast
  show ?case
  proof (cases "pid = 3")
    case True
    with m p a show ?thesis by simp
  next
    case False
    have "orow @ [pid] \<noteq> []" by simp
    from Suc.IH [OF this, of "res @ [pid]"] obtain n r where
      "predict_loop self enc k [orow @ [pid]] (res @ [pid]) = (n, Inr r)" by blast
    with m p a False show ?thesis by simp
  qed
qed

lemma predict_ids_loop:
  "predict_ids self tokenize_batch MAX_LENGTH s =
     predict_loop self (tokenize_batch s) MAX_LENGTH [[2]] [2]"
  by (simp add: predict_ids_def Let_def)

text \<open>
  C4. Greedy decoding starts at most \<open>MAX_LENGTH\<close> forward passes; the ids it hands to the
  tokenizer's \<open>decode\<close> never contain the end-token id \<open>3\<close>, whether the loop stopped on the
  end token or ran out of iterations; and it returns the decoded text whenever the forward
  pass is well shaped, that is, returns logits \<open>(1, seq, vocab)\<close> with a non-empty vocabulary
  axis for a decoder input \<open>(1, seq)\<close>.
\<close>

theorem predict_bounded_without_end_token:
  "fst (predict_ids self tokenize_batch MAX_LENGTH s) \<le> MAX_LENGTH \<and>
   (\<forall>res. snd (predict_ids self tokenize_batch MAX_LENGTH s) = Inr res \<longrightarrow>
      3 \<notin> set res \<and> predict self tokenize_batch decode MAX_LENGTH s = Inr (decode res)) \<and>
   ((\<forall>orow e c d. orow \<noteq> [] \<longrightarrow>
       (\<exists>row. self (tokenize_batch s) [orow] False e c d = Inr [row] \<and>
              length row = length orow \<and> [] \<notin> set row)) \<longrightarrow>
    (\<exists>res. snd (predict_ids self tokenize_batch MAX_LENGTH s) = Inr res))"
proof (intro conjI allI impI)
  show "fst (predict_ids self tokenize_batch MAX_LENGTH s) \<le> MAX_LENGTH"
    by (simp add: predict_ids_loop predict_loop_passes)
next
  fix res assume r: "snd (predict_ids self tokenize_batch MAX_LENGTH s) = Inr res"
  then obtain n where "predict_loop self (tokenize_batch s) MAX_LENGTH [[2]] [2] = (n, Inr res)"
    by (cases "predict_loop self (tokenize_batch s) MAX_LENGTH [[2]] [2]")
       (simp add: predict_ids_loop)
  then show "3 \<notin> set res" using predict_loop_no_end [of "[2]"] by fastforce
  from r show "predict self tokenize_batch decode MAX_LENGTH s = Inr (decode res)"
    by (simp add: predict_def)
next
  assume "\<forall>orow e c d. orow \<noteq> [] \<longrightarrow>
       (\<exists>row. self (tokenize_batch s) [orow] False e c d = Inr [row] \<and>
              length row = length orow \<and> [] \<notin> set row)"
  then have "\<exists>n r. predict_loop self (tokenize_batch s) MAX_LENGTH [[2]] [2] = (n, Inr r)"
    by (intro predict_loop_returns) auto
  then show "\<exists>res. snd (predict_ids self tokenize_batch MAX_LENGTH s) = Inr res"
    by (auto simp: predict_ids_loop)
qed

lemma create_masks_one_row:
  "create_masks enc [orow] =
     Some (create_padding_mask enc,
           map (\<lambda>row. [map (\<lambda>r. map2 max (map (\<lambda>t. if t = 0 then 1 else 0) row) r)
                            (create_look_ahead_mask (length orow))]) [orow],
           create_padding_mask enc)"
  by (rule create_masks_rect) (simp add: rect_def)

theorem predict_bounded_without_end_token_witness:
  "snd (predict_ids (\<lambda>enc out training e c d.
                       Inr (map (map (\<lambda>t. if t = 2 then [0, 0, 0, 0, 1] else [0, 0, 0, 1, 0])) out))
                    (\<lambda>s. [[4, 5, 6]]) 5 ''x'') = Inr [2, 4] \<and>
   fst (predict_ids (\<lambda>enc out training e c d.
                       Inr (map (map (\<lambda>t. if t = 2 then [0, 0, 0, 0, 1] else [0, 0, 0, 1, 0])) out))
                    (\<lambda>s. [[4, 5, 6]]) 5 ''x'') \<le> 5 \<and>
   3 \<notin> set [2, 4::nat] \<and>
   predict (\<lambda>enc out training e c d.
              Inr (map (map (\<lambda>t. if t = 2 then [0, 0, 0, 0, 1] else [0, 0, 0, 1, 0])) out))
           (\<lambda>s. [[4, 5, 6]]) (map (\<lambda>t. if t = 4 then CHR ''a'' else CHR ''b'')) 5 ''x'' = Inr ''ba''"
proof -
  let ?self = "\<lambda>(enc::ids) (out::ids) (training::bool) (e::mask4) (c::mask4) (d::mask4).
                 (Inr (map (map (\<lambda>t. if t = 2 then [0, 0, 0, 0, 1] else [0, 0, 0, 1, 0])) out)
                  :: tf_error + predictions)"
  let ?tok = "\<lambda>s::string. [[4, 5, 6::nat]]"
  let ?dec = "map (\<lambda>t::nat. if t = 4 then CHR ''a'' else CHR ''b'')"
  have r: "predict_ids ?self ?tok 5 ''x'' = (2, Inr [2, 4])"
    by (simp add: predict_ids_loop eval_nat_numeral create_masks_one_row argmax_last_def argmax_def)
  have w: "\<forall>orow e c d. orow \<noteq> [] \<longrightarrow>
      (\<exists>row. (Inr (map (map (\<lambda>t::nat. if t = 2 then [0, 0, 0, 0, 1] else [0, 0, 0, 1, 0])) [orow])
               :: tf_error + predictions) = Inr [row] \<and>
             length row = length orow \<and> [] \<notin> set row)"
    by auto
  from predict_bounded_without_end_token [of ?self ?tok 5 "''x''" ?dec] r w
  show ?thesis by simp
qed



section \<open>Failures in demo mode\<close>

lemma demo_loop_filter: "demo_loop p (filter (\<lambda>i. i \<noteq> []) ls) = demo_loop p ls"
  by (induction ls) (auto split: sum.splits prod.splits)

lemma demo_loop_prefix:
  "map p pre = map Inr ts \<Longrightarrow> [] \<notin> set pre \<Longrightarrow>
   demo_loop p (pre @ rest) =
     (concat (map2 (\<lambda>x t. [x, t]) pre ts) @ fst (demo_loop p rest), snd (demo_loop p rest))"
proof (induction pre arbitrary: ts)
  case Nil
  then show ?case by simp
next
  case (Cons x pre)
  then obtain t ts' where ts: "ts = t # ts'" by (cases ts) auto
  with Cons.prems have x: "p x = Inr t" "x \<noteq> []" and r: "map p pre = map Inr ts'" "[] \<notin> set pre"
    by auto
  from Cons.IH [OF r] x show ?case by (simp add: ts split: prod.splits)
qed

lemma demo_loop_all:
  "map p ls = map Inr ts \<Longrightarrow> [] \<notin> set ls \<Longrightarrow>
   demo_loop p ls = (concat (map2 (\<lambda>x t. [x, t]) ls ts), None)"
  using demo_loop_prefix [of p ls ts "[]"] by simp

text \<open>
  C3, as amended. An error raised while reading \<open>demo.txt\<close> or while predicting a line is
  caught and logged, and \<open>demo\<close> returns. The non-empty lines before the failing one have
  been printed with their predictions and the failing line has been printed; the lines
  after it are not processed. Without a failure every non-empty line is printed with its
  prediction.
\<close>

theorem demo_stops_at_first_failure:
  "demo str (Inl e) predict_fn = [''demo error'', str e] \<and>
   (filter (\<lambda>i. i \<noteq> []) (split_nl d) = pre @ l # post \<and>
    map predict_fn pre = map Inr ts \<and> predict_fn l = Inl e \<longrightarrow>
      demo str (Inr d) predict_fn =
        concat (map2 (\<lambda>x t. [x, t]) pre ts) @ [l, ''demo error'', str e]) \<and>
   (map predict_fn (filter (\<lambda>i. i \<noteq> []) (split_nl d)) = map Inr ts \<longrightarrow>
      demo str (Inr d) predict_fn =
        concat (map2 (\<lambda>x t. [x, t]) (filter (\<lambda>i. i \<noteq> []) (split_nl d)) ts))"
proof (intro conjI impI)
  show "demo str (Inl e) predict_fn = [''demo error'', str e]"
    by (simp add: demo_def)
next
  assume a: "filter (\<lambda>i. i \<noteq> []) (split_nl d) = pre @ l # post \<and>
             map predict_fn pre = map Inr ts \<and> predict_fn l = Inl e"
  then have "set (pre @ l # post) = set (filter (\<lambda>i. i \<noteq> []) (split_nl d))" by simp
  then have ne: "[] \<notin> set pre" "l \<noteq> []" by auto
  have "demo_loop predict_fn (split_nl d) = demo_loop predict_fn (pre @ l # post)"
    using a demo_loop_filter [of predict_fn "split_nl d"] by simp
  also have "\<dots> = (concat (map2 (\<lambda>x t. [x, t]) pre ts) @ [l], Some e)"
    using a ne by (simp add: demo_loop_prefix)
  finally show "demo str (Inr d) predict_fn =
        concat (map2 (\<lambda>x t. [x, t]) pre ts) @ [l, ''demo error'', str e]"
    by (simp add: demo_def)
next
  assume a: "map predict_fn (filter (\<lambda>i. i \<noteq> []) (split_nl d)) = map Inr ts"
  have "demo_loop predict_fn (split_nl d) =
          demo_loop predict_fn (filter (\<lambda>i. i \<noteq> []) (split_nl d))"
    by (simp add: demo_loop_filter)
  also have "\<dots> = (concat (map2 (\<lambda>x t. [x, t]) (filter (\<lambda>i. i \<noteq> []) (split_nl d)) ts), None)"
    using a by (intro demo_loop_all) auto
  finally show "demo str (Inr d) predict_fn =
        concat (map2 (\<lambda>x t. [x, t]) (filter (\<lambda>i. i \<noteq> []) (split_nl d)) ts)"
    by (simp add: demo_def)
qed

lemma split_nl_abc:
  "split_nl [CHR ''a'', CHR 0x0A, CHR ''b'', CHR 0x0A, CHR 0x0A, CHR ''c''] = [''a'', ''b'', [], ''c'']"
  by simp

theorem demo_stops_at_first_failure_witness:
  "filter (\<lambda>i. i \<noteq> []) (split_nl [CHR ''a'', CHR 0x0A, CHR ''b'', CHR 0x0A, CHR 0x0A, CHR ''c''])
     = [''a''] @ ''b'' # [''c''] \<and>
   map (\<lambda>s. if s = ''b'' then Inl ''boom'' else Inr (s @ ''!'')) [''a''] = map Inr [''a!''] \<and>
   (if ''b'' = ''b'' then Inl ''boom'' else Inr (''b'' @ ''!'')) = (Inl ''boom'' :: string + string) \<and>
   demo id (Inr [CHR ''a'', CHR 0x0A, CHR ''b'', CHR 0x0A, CHR 0x0A, CHR ''c''])
        (\<lambda>s. if s = ''b'' then Inl ''boom'' else Inr (s @ ''!'')) =
     [''a'', ''a!'', ''b'', ''demo error'', ''boom'']"
  using demo_stops_at_first_failure
          [of id "''boom''" "\<lambda>s. if s = ''b'' then Inl ''boom'' else Inr (s @ ''!'')"
              "[CHR ''a'', CHR 0x0A, CHR ''b'', CHR 0x0A, CHR 0x0A, CHR ''c'']"
              "[''a'']" "''b''" "[''c'']" "[''a!'']"]
  by (simp add: split_nl_abc)

text \<open>
  C3, as stated, fails: prediction raises on the first line of a two-line file, and the
  second line is neither predicted nor printed.
\<close>

theorem demo_skips_remaining_lines_counterexample:
  "demo id (Inr [CHR ''a'', CHR 0x0A, CHR ''b''])
        (\<lambda>s. if s = ''a'' then Inl ''boom'' else Inr (s @ ''!'')) =
     [''a'', ''demo error'', ''boom''] \<and>
   ''b'' \<notin> set (demo id (Inr [CHR ''a'', CHR 0x0A, CHR ''b''])
                     (\<lambda>s. if s = ''a'' then Inl ''boom'' else Inr (s @ ''!''))) \<and>
   ''b!'' \<notin> set (demo id (Inr [CHR ''a'', CHR 0x0A, CHR ''b''])
                     (\<lambda>s. if s = ''a'' then Inl ''boom'' else Inr (s @ ''!'')))"
  by (simp add: demo_def)

section \<open>The wiring of the decoder layer\<close>

lemma mha_call_weights:
  "snd (mha_call tf self v k q msk) =
     snd (scaled_dot_product_attention tf
            (split_heads tf self (wq self q) (batch_of tf q))
            (split_heads tf self (wk self k) (batch_of tf q))
            (split_heads tf self (wv self v) (batch_of tf q)) msk)"
  by (simp add: mha_call_def Let_def case_prod_unfold)

lemma mha_call_output:
  "fst (mha_call tf self v k q msk) =
     dense self (reshape_concat tf (transpose_0213 tf
       (fst (scaled_dot_product_attention tf
            (split_heads tf self (wq self q) (batch_of tf q))
            (split_heads tf self (wk self k) (batch_of tf q))
            (split_heads tf self (wv self v) (batch_of tf q)) msk)))
       (batch_of tf q) (d_model self))"
  by (simp add: mha_call_def Let_def case_prod_unfold)

text \<open>
  C8. In a decoder-layer forward pass the second attention block is
  \<open>MultiHeadAttention.call\<close> with \<open>v = enc_output\<close>, \<open>k = enc_output\<close> and \<open>q = out1\<close>, the
  normalised output of the first (masked self-attention) block, and with the padding mask:
  the query projection is applied to \<open>out1\<close>, the key and value projections to the encoder
  output, and the attention is masked by the padding mask.
\<close>

theorem decoder_cross_attention_wiring:
  "(let out1 = layernorm1 self (tensor_add tf
                 (dropout1 self (fst (mha_call tf (mha1 self) x x x look_ahead_mask)) training) x);
        block2 = mha_call tf (mha2 self) enc_output enc_output out1 padding_mask;
        sdpa = scaled_dot_product_attention tf
                 (split_heads tf (mha2 self) (wq (mha2 self) out1) (batch_of tf out1))
                 (split_heads tf (mha2 self) (wk (mha2 self) enc_output) (batch_of tf out1))
                 (split_heads tf (mha2 self) (wv (mha2 self) enc_output) (batch_of tf out1))
                 padding_mask;
        out2 = layernorm2 self (tensor_add tf (dropout2 self (fst block2) training) out1)
    in fst (decoder_block1 tf self x training look_ahead_mask) = out1 \<and>
       snd (snd (decoder_layer_call tf self x enc_output training look_ahead_mask padding_mask)) =
         snd block2 \<and>
       snd block2 = snd sdpa \<and>
       fst block2 =
         dense (mha2 self) (reshape_concat tf (transpose_0213 tf (fst sdpa))
                              (batch_of tf out1) (d_model (mha2 self))) \<and>
       fst (decoder_layer_call tf self x enc_output training look_ahead_mask padding_mask) =
         layernorm3 self (tensor_add tf (dropout3 self (ffn self out2) training) out2))"
  by (simp add: Let_def decoder_layer_call_def decoder_block1_def case_prod_unfold
                mha_call_weights mha_call_output)

section \<open>The frame of \<open>evaluate\<close>\<close>

lemma evaluate_loop_length:
  "length (snd (evaluate_loop call lo w a1 a2 h bs)) = length h"
proof (induction bs arbitrary: h)
  case Nil
  then show ?case by simp
next
  case (Cons b bs)
  obtain inp tar where b: "b = (inp, tar)" by (cases b)
  show ?case
    by (simp add: b Let_def Cons.IH split: option.splits sum.splits prod.splits)
qed

lemma evaluate_loop_frame:
  "i \<noteq> a1 \<Longrightarrow> i \<noteq> a2 \<Longrightarrow> snd (evaluate_loop call lo w a1 a2 h bs) ! i = h ! i"
proof (induction bs arbitrary: h)
  case Nil
  then show ?case by simp
next
  case (Cons b bs)
  obtain inp tar where b: "b = (inp, tar)" by (cases b)
  from Cons.prems show ?case
    by (simp add: b Let_def Cons.IH split: option.splits sum.splits prod.splits)
qed

lemma evaluate_loop_local:
  assumes "a1 < length h" "a2 < length h" "a1 \<noteq> a2"
      and "b1 < length h'" "b2 < length h'" "b1 \<noteq> b2"
      and "h ! a1 = h' ! b1" "h ! a2 = h' ! b2"
  shows "fst (evaluate_loop call lo w a1 a2 h bs) = fst (evaluate_loop call lo w b1 b2 h' bs) \<and>
         snd (evaluate_loop call lo w a1 a2 h bs) ! a1 = snd (evaluate_loop call lo w b1 b2 h' bs) ! b1 \<and>
         snd (evaluate_loop call lo w a1 a2 h bs) ! a2 = snd (evaluate_loop call lo w b1 b2 h' bs) ! b2"
  using assms
proof (induction bs arbitrary: h h')
  case Nil
  then show ?case by simp
next
  case (Cons b bs)
  obtain inp tar where b: "b = (inp, tar)" by (cases b)
  show ?case
  proof (cases "create_masks inp (map butlast tar)")
    case None
    with Cons.prems show ?thesis by (simp add: b)
  next
    case (Some m)
    obtain e c d where m: "m = (e, c, d)" by (cases m)
    show ?thesis
    proof (cases "call w inp (map butlast tar) False e c d")
      case (Inl err)
      with Cons.prems Some m show ?thesis by (simp add: b)
    next
      case (Inr predictions)
      show ?thesis
      proof (cases "loss_function lo (map tl tar) predictions")
        case (Inl err)
        with Cons.prems Some m Inr show ?thesis by (simp add: b)
      next
        case lossr: (Inr loss)
        let ?h1 = "h[a1 := mean_update (h ! a1) loss]"
        let ?h1' = "h'[b1 := mean_update (h' ! b1) loss]"
        have h1: "?h1 ! a1 = ?h1' ! b1" "?h1 ! a2 = ?h1' ! b2"
          using Cons.prems by simp_all
        show ?thesis
        proof (cases "accuracy_update (?h1 ! a2) (map tl tar) predictions")
          case (Inl err)
          with Cons.prems Some m Inr lossr h1 show ?thesis by (simp add: b)
        next
          case accr: (Inr macc)
          let ?h2 = "?h1[a2 := macc]"
          let ?h2' = "?h1'[b2 := macc]"
          have ih: "fst (evaluate_loop call lo w a1 a2 ?h2 bs) = fst (evaluate_loop call lo w b1 b2 ?h2' bs) \<and>
             snd (evaluate_loop call lo w a1 a2 ?h2 bs) ! a1 = snd (evaluate_loop call lo w b1 b2 ?h2' bs) ! b1 \<and>
             snd (evaluate_loop call lo w a1 a2 ?h2 bs) ! a2 = snd (evaluate_loop call lo w b1 b2 ?h2' bs) ! b2"
            using Cons.prems by (intro Cons.IH) simp_all
          from accr h1 have accr': "accuracy_update (?h1' ! b2) (map tl tar) predictions = Inr macc"
            by simp
          have l: "evaluate_loop call lo w a1 a2 h (b # bs) = evaluate_loop call lo w a1 a2 ?h2 bs"
            using Some m Inr lossr accr by (simp add: b)
          have r: "evaluate_loop call lo w b1 b2 h' (b # bs) = evaluate_loop call lo w b1 b2 ?h2' bs"
            using Some m Inr lossr accr' by (simp add: b)
          from ih show ?thesis by (simp only: l r)
        qed
      qed
    qed
  qed
qed

lemma evaluate_unfold:
  "evaluate call lo B s inp tar =
     (let n = length (metrics s);
          h4 = metrics s @ [\<lparr>total = Finite 0, count = 0\<rparr>, \<lparr>total = Finite 0, count = 0\<rparr>]
      in case split_batch inp B of
           Inl e \<Rightarrow> (Inl e, s\<lparr>metrics := h4\<rparr>)
         | Inr ib \<Rightarrow>
      (case split_batch tar B of
           Inl e \<Rightarrow> (Inl e, s\<lparr>metrics := h4\<rparr>)
         | Inr tb \<Rightarrow>
             (case fst (evaluate_loop call lo (weights s) n (Suc n) h4 (zip ib tb)) of
                Inl e \<Rightarrow> Inl e
              | Inr u \<Rightarrow>
                  Inr (result (snd (evaluate_loop call lo (weights s) n (Suc n) h4 (zip ib tb)) ! n),
                       result (snd (evaluate_loop call lo (weights s) n (Suc n) h4 (zip ib tb)) ! Suc n)),
              s\<lparr>metrics := snd (evaluate_loop call lo (weights s) n (Suc n) h4 (zip ib tb))\<rparr>)))"
  by (simp add: evaluate_def new_metric_def reset_states_def Let_def nth_append list_update_append
           split: sum.splits prod.splits)

lemma evaluate_keeps_objects:
  assumes "i < length (metrics s)"
  shows "metrics (snd (evaluate call lo B s inp tar)) ! i = metrics s ! i"
  using assms
  by (simp add: evaluate_unfold Let_def evaluate_loop_frame nth_append split: sum.splits)

lemma evaluate_keeps_weights: "weights (snd (evaluate call lo B s inp tar)) = weights s"
  by (simp add: evaluate_unfold Let_def split: sum.splits)

lemma evaluate_result_local:
  assumes "weights s' = weights s"
  shows "fst (evaluate call lo B s' inp tar) = fst (evaluate call lo B s inp tar)"
proof -
  let ?z = "\<lparr>total = Finite 0, count = 0\<rparr>"
  have "fst (evaluate_loop call lo (weights s) (length (metrics s')) (Suc (length (metrics s')))
               (metrics s' @ [?z, ?z]) bs) =
        fst (evaluate_loop call lo (weights s) (length (metrics s)) (Suc (length (metrics s)))
               (metrics s @ [?z, ?z]) bs) \<and>
        snd (evaluate_loop call lo (weights s) (length (metrics s')) (Suc (length (metrics s')))
               (metrics s' @ [?z, ?z]) bs) ! length (metrics s') =
        snd (evaluate_loop call lo (weights s) (length (metrics s)) (Suc (length (metrics s)))
               (metrics s @ [?z, ?z]) bs) ! length (metrics s) \<and>
        snd (evaluate_loop call lo (weights s) (length (metrics s')) (Suc (length (metrics s')))
               (metrics s' @ [?z, ?z]) bs) ! Suc (length (metrics s')) =
        snd (evaluate_loop call lo (weights s) (length (metrics s)) (Suc (length (metrics s)))
               (metrics s @ [?z, ?z]) bs) ! Suc (length (metrics s))" for bs
    by (rule evaluate_loop_local) (simp_all add: nth_append)
  then show ?thesis
    by (simp add: evaluate_unfold Let_def assms split: sum.splits)
qed

text \<open>
  C10. \<open>evaluate\<close> builds its two trackers anew on every call. It leaves every metric
  object that existed before the call as it was, in particular the module-level
  \<open>train_loss\<close> and \<open>train_accuracy\<close>, and it leaves the weights as they were; its result is
  the same whatever the trackers held before the call, so for a given model it depends
  only on the input and target arrays.
\<close>

theorem evaluate_frame:
  "(\<forall>i<length (metrics s). metrics (snd (evaluate call lo B s inp tar)) ! i = metrics s ! i) \<and>
   (train_loss < length (metrics s) \<longrightarrow>
      metrics (snd (evaluate call lo B s inp tar)) ! train_loss = metrics s ! train_loss) \<and>
   (train_accuracy < length (metrics s) \<longrightarrow>
      metrics (snd (evaluate call lo B s inp tar)) ! train_accuracy = metrics s ! train_accuracy) \<and>
   weights (snd (evaluate call lo B s inp tar)) = weights s \<and>
   (\<forall>h. fst (evaluate call lo B (s\<lparr>metrics := h\<rparr>) inp tar) = fst (evaluate call lo B s inp tar))"
proof (intro conjI allI impI)
  fix h
  show "fst (evaluate call lo B (s\<lparr>metrics := h\<rparr>) inp tar) = fst (evaluate call lo B s inp tar)"
    by (rule evaluate_result_local) simp
qed (simp_all add: evaluate_keeps_objects evaluate_keeps_weights)

theorem evaluate_frame_witness:
  "train_loss < length [\<lparr>total = Finite 3, count = 2\<rparr>, \<lparr>total = Finite 5, count = 8\<rparr>] \<and>
   train_accuracy < length [\<lparr>total = Finite 3, count = 2\<rparr>, \<lparr>total = Finite 5, count = 8\<rparr>] \<and>
   metrics (snd (evaluate (\<lambda>w inp tar_inp training e c d. Inr [[[0, 0, 1], [0, 1, 0]]])
                          softmax_cross_entropy 64
                          \<lparr>weights = (), metrics = [\<lparr>total = Finite 3, count = 2\<rparr>,
                                                     \<lparr>total = Finite 5, count = 8\<rparr>]\<rparr>
                          [[4, 5]] [[2, 2, 0]])) ! train_loss = \<lparr>total = Finite 3, count = 2\<rparr> \<and>
   metrics (snd (evaluate (\<lambda>w inp tar_inp training e c d. Inr [[[0, 0, 1], [0, 1, 0]]])
                          softmax_cross_entropy 64
                          \<lparr>weights = (), metrics = [\<lparr>total = Finite 3, count = 2\<rparr>,
                                                     \<lparr>total = Finite 5, count = 8\<rparr>]\<rparr>
                          [[4, 5]] [[2, 2, 0]])) ! train_accuracy = \<lparr>total = Finite 5, count = 8\<rparr> \<and>
   fst (evaluate (\<lambda>w inp tar_inp training e c d. Inr [[[0, 0, 1], [0, 1, 0]]])
                 softmax_cross_entropy 64
                 \<lparr>weights = (), metrics = module_metrics\<rparr> [[4, 5]] [[2, 2, 0]]) =
   fst (evaluate (\<lambda>w inp tar_inp training e c d. Inr [[[0, 0, 1], [0, 1, 0]]])
                 softmax_cross_entropy 64
                 \<lparr>weights = (), metrics = [\<lparr>total = Finite 3, count = 2\<rparr>,
                                            \<lparr>total = Finite 5, count = 8\<rparr>]\<rparr>
                 [[4, 5]] [[2, 2, 0]])"
  using evaluate_frame
          [of "\<lparr>weights = (), metrics = [\<lparr>total = Finite 3, count = 2\<rparr>,
                                          \<lparr>total = Finite 5, count = 8\<rparr>]\<rparr>"
              "\<lambda>w inp tar_inp training e c d. Inr [[[0, 0, 1], [0, 1, 0]]]"
              softmax_cross_entropy 64 "[[4, 5]]" "[[2, 2, 0]]"]
  by (simp add: train_loss_def train_accuracy_def)

end
